theory Spec2Isabelle
  imports Main "HOL-Library.Sublist"
begin

section \<open>Locale routing of the AMD site (assets/js/i18n.js)\<close>

text \<open>
  The module \<^verbatim>\<open>I18n\<close> reads the page address, the browser language and one entry of
  \<^verbatim>\<open>localStorage\<close>; it writes that entry, the attributes of the document element, the
  class list and attributes of the switch buttons, the console and
  \<^verbatim>\<open>window.location.href\<close>. The model threads all of that through a record; a thrown
  exception is the left summand of a sum and carries the page as it was when thrown.
\<close>

subsection \<open>String primitives of JavaScript\<close>

text \<open>
  Path names are ASCII (the browser percent-encodes everything else), so a JavaScript
  string is modelled as a \<^typ>\<open>string\<close>.
\<close>

definition js_includes :: "string \<Rightarrow> string \<Rightarrow> bool" where
  \<comment> \<open>\<^verbatim>\<open>s.includes(t)\<close>: \<open>t\<close> occurs in \<open>s\<close> as a contiguous run.\<close>
  "js_includes s t = sublist t s"

definition js_startsWith :: "string \<Rightarrow> string \<Rightarrow> bool" where
  "js_startsWith s t = prefix t s"

definition js_endsWith :: "string \<Rightarrow> string \<Rightarrow> bool" where
  "js_endsWith s t = suffix t s"

fun js_split :: "char \<Rightarrow> string \<Rightarrow> string list" where
  \<comment> \<open>\<^verbatim>\<open>s.split(sep)\<close> for a separator of one character; the empty string gives \<^verbatim>\<open>['']\<close>.\<close>
  "js_split sep [] = [[]]"
| "js_split sep (c # cs) =
     (if c = sep then [] # js_split sep cs
      else (case js_split sep cs of
              [] \<Rightarrow> [[c]]
            | w # ws \<Rightarrow> (c # w) # ws))"

definition js_pop :: "'a list \<Rightarrow> 'a option" where
  \<comment> \<open>\<^verbatim>\<open>xs.pop()\<close>: the last element, \<^verbatim>\<open>undefined\<close> on an empty array.\<close>
  "js_pop xs = (case rev xs of [] \<Rightarrow> None | x # _ \<Rightarrow> Some x)"

fun js_lastIndexOf :: "string \<Rightarrow> char \<Rightarrow> int" where
  \<comment> \<open>\<^verbatim>\<open>s.lastIndexOf(c)\<close>: the index of the last occurrence, \<open>-1\<close> when there is none.\<close>
  "js_lastIndexOf [] c = - 1"
| "js_lastIndexOf (x # xs) c =
     (let r = js_lastIndexOf xs c
      in if 0 \<le> r then r + 1 else if x = c then 0 else - 1)"

definition js_substring0 :: "string \<Rightarrow> int \<Rightarrow> string" where
  \<comment> \<open>\<^verbatim>\<open>s.substring(0, n)\<close>: a negative \<open>n\<close> counts as 0, a large one as the length.\<close>
  "js_substring0 s n = take (nat n) s"

definition js_replace_caret :: "string \<Rightarrow> string \<Rightarrow> string" where
  \<comment> \<open>\<^verbatim>\<open>s.replace(new RegExp('^' + p), '')\<close> for a \<open>p\<close> free of regular-expression
      metacharacters: a leading \<open>p\<close> is removed, once.\<close>
  "js_replace_caret s p = (if prefix p s then drop (length p) s else s)"

definition lower_char :: "char \<Rightarrow> char" where
  "lower_char c =
     (let n = (of_char c :: nat) in if 65 \<le> n \<and> n \<le> 90 then char_of (n + 32) else c)"

definition js_toLowerCase :: "string \<Rightarrow> string" where
  \<comment> \<open>On ASCII. No character outside ASCII lowers to one of the letters of a
      supported code, so membership in the supported codes is unaffected.\<close>
  "js_toLowerCase s = map lower_char s"

definition js_str :: "string option \<Rightarrow> string" where
  \<comment> \<open>String coercion of a value that is a string or \<^verbatim>\<open>null\<close>, as in \<^verbatim>\<open>'/' + v\<close>.\<close>
  "js_str v = (case v of None \<Rightarrow> ''null'' | Some s \<Rightarrow> s)"

subsection \<open>The page\<close>

datatype error = SecurityError | QuotaExceededError

text \<open>
  The store of the browser: \<open>Enabled\<close> works, \<open>Disabled\<close> refuses every access,
  \<open>ReadOnly\<close> can be read but not written (a store that is full or has no quota).
\<close>

datatype storage =
    Disabled
  | ReadOnly "string \<rightharpoonup> string"
  | Enabled "string \<rightharpoonup> string"

definition getItem :: "storage \<Rightarrow> string \<Rightarrow> error + string option" where
  "getItem st k =
     (case st of
        Disabled \<Rightarrow> Inl SecurityError
      | ReadOnly m \<Rightarrow> Inr (m k)
      | Enabled m \<Rightarrow> Inr (m k))"

definition setItem :: "storage \<Rightarrow> string \<Rightarrow> string \<Rightarrow> error + storage" where
  "setItem st k v =
     (case st of
        Disabled \<Rightarrow> Inl SecurityError
      | ReadOnly m \<Rightarrow> Inl QuotaExceededError
      | Enabled m \<Rightarrow> Inr (Enabled (m(k \<mapsto> v))))"

record element =
  classList :: "string list"
  attrs :: "string \<rightharpoonup> string"
  listeners :: nat

record page =
  pathname :: string
  protocol :: string
  language :: string
  localStorage :: storage
  navigations :: "string list"
  warnings :: "string list"
  html_attrs :: "string \<rightharpoonup> string"
  elements :: "element list"

text \<open>
  \<open>pathname\<close> and \<open>protocol\<close> are those of \<^verbatim>\<open>window.location\<close> when the page was
  loaded, \<open>language\<close> is \<^verbatim>\<open>navigator.language\<close>; \<open>navigations\<close> holds the values assigned
  to \<^verbatim>\<open>window.location.href\<close>, in order (each is a navigation request), \<open>warnings\<close>
  the lines written with \<^verbatim>\<open>console.warn\<close>, \<open>html_attrs\<close> the attributes of the document
  element, \<open>elements\<close> the elements of the document in document order, \<open>listeners\<close> the
  number of click listeners on an element.
\<close>

type_synonym outcome = "(error \<times> page) + page"

text \<open>
  \<open>Inr s\<close>: the call returned and left the page \<open>s\<close>; \<open>Inl (e, s)\<close>: it threw \<open>e\<close> and
  the page was \<open>s\<close> at that moment.
\<close>

definition classList_add :: "string \<Rightarrow> string list \<Rightarrow> string list" where
  "classList_add c cl = (if c \<in> set cl then cl else cl @ [c])"

definition classList_remove :: "string \<Rightarrow> string list \<Rightarrow> string list" where
  "classList_remove c cl = filter (\<lambda>x. x \<noteq> c) cl"

definition is_switch_btn :: "element \<Rightarrow> bool" where
  \<comment> \<open>the selector \<^verbatim>\<open>.lang-switch__btn\<close>\<close>
  "is_switch_btn el = (''lang-switch__btn'' \<in> set (classList el))"

definition has_switch_lang :: "element \<Rightarrow> bool" where
  \<comment> \<open>the selector \<^verbatim>\<open>[data-switch-lang]\<close>\<close>
  "has_switch_lang el = (attrs el ''data-switch-lang'' \<noteq> None)"

subsection \<open>I18n\<close>

definition STORAGE_KEY :: string where
  "STORAGE_KEY = ''amd-lang''"

definition SUPPORTED_LANGS :: "string list" where
  "SUPPORTED_LANGS = [''en'', ''ar'']"

definition DEFAULT_LANG :: string where
  "DEFAULT_LANG = ''en''"

definition backslash :: char where
  "backslash = CHR 0x5C"

definition getCurrentLang :: "string \<Rightarrow> string option" where
  "getCurrentLang path =
     (if js_includes path ''ar/'' \<or> js_endsWith path ''ar''
         \<or> js_includes path (backslash # ''ar'' @ [backslash])
         \<or> js_includes path ''ar/index.html''
      then Some ''ar''
      else if js_includes path ''en/'' \<or> js_endsWith path ''en''
         \<or> js_includes path (backslash # ''en'' @ [backslash])
         \<or> js_includes path ''en/index.html''
      then Some ''en''
      else None)"

definition browserLang :: "page \<Rightarrow> string" where
  \<comment> \<open>\<^verbatim>\<open>navigator.language.split('-')[0].toLowerCase()\<close>; \<open>split\<close> never returns an
      empty array.\<close>
  "browserLang s =
     js_toLowerCase (case js_split (CHR ''-'') (language s) of [] \<Rightarrow> [] | x # _ \<Rightarrow> x)"

definition getPreferredLang :: "page \<Rightarrow> error + string" where
  "getPreferredLang s =
     (case getItem (localStorage s) STORAGE_KEY of
        Inl e \<Rightarrow> Inl e
      | Inr stored \<Rightarrow>
          (if (case stored of None \<Rightarrow> False
               | Some v \<Rightarrow> v \<noteq> [] \<and> v \<in> set SUPPORTED_LANGS)
           then Inr (the stored)
           else if browserLang s \<in> set SUPPORTED_LANGS then Inr (browserLang s)
           else Inr DEFAULT_LANG))"

definition savePreference :: "string \<Rightarrow> page \<Rightarrow> error + page" where
  \<comment> \<open>When \<open>setItem\<close> throws, nothing has been written.\<close>
  "savePreference lang s =
     (case setItem (localStorage s) STORAGE_KEY lang of
        Inl e \<Rightarrow> Inl e
      | Inr st \<Rightarrow> Inr (s\<lparr>localStorage := st\<rparr>))"

definition updateHtmlAttributes :: "string \<Rightarrow> page \<Rightarrow> page" where
  "updateHtmlAttributes lang s =
     s\<lparr>html_attrs := (html_attrs s)
          (''lang'' \<mapsto> lang, ''dir'' \<mapsto> (if lang = ''ar'' then ''rtl'' else ''ltr''))\<rparr>"

definition switcher_btn :: "string \<Rightarrow> element \<Rightarrow> element" where
  \<comment> \<open>the body of the \<open>forEach\<close> of \<open>updateLanguageSwitcher\<close>\<close>
  "switcher_btn currentLang btn =
     (if attrs btn ''data-lang'' = Some currentLang
      then btn\<lparr>classList := classList_add ''lang-switch__btn--active'' (classList btn),
               attrs := (attrs btn)(''aria-current'' \<mapsto> ''true'')\<rparr>
      else btn\<lparr>classList := classList_remove ''lang-switch__btn--active'' (classList btn),
               attrs := (attrs btn)(''aria-current'' := None)\<rparr>)"

definition updateLanguageSwitcher :: "string \<Rightarrow> page \<Rightarrow> page" where
  "updateLanguageSwitcher currentLang s =
     s\<lparr>elements :=
          map (\<lambda>el. if is_switch_btn el then switcher_btn currentLang el else el)
            (elements s)\<rparr>"

definition detectAndRedirect :: "page \<Rightarrow> outcome" where
  "detectAndRedirect s =
     (case getCurrentLang (pathname s) of
        Some currentLang \<Rightarrow>
          (case savePreference currentLang s of
             Inl e \<Rightarrow> Inl (e, s)
           | Inr s1 \<Rightarrow>
               Inr (updateLanguageSwitcher currentLang (updateHtmlAttributes currentLang s1)))
      | None \<Rightarrow>
          (if pathname s = ''/'' \<or> pathname s = []
           then (case getPreferredLang s of
                   Inl e \<Rightarrow> Inl (e, s)
                 | Inr preferredLang \<Rightarrow> Inr (s\<lparr>navigations := navigations s @ [''./'' @ preferredLang @ ''/'']\<rparr>))
           else Inr s))"

definition fileNewPath :: "string option \<Rightarrow> string \<Rightarrow> string \<Rightarrow> string \<Rightarrow> string" where
  \<comment> \<open>\<open>newPath\<close> of the \<^verbatim>\<open>file:\<close> branch of \<open>switchTo\<close>\<close>
  "fileNewPath currentLang path filename newLang =
     (let currentDir = js_substring0 path (js_lastIndexOf path (CHR ''/''))
      in if js_endsWith currentDir (''/'' @ js_str currentLang)
         then (let parentDir = js_substring0 currentDir (js_lastIndexOf currentDir (CHR ''/''))
               in if newLang = ''en'' then parentDir @ ''/'' @ filename
                  else parentDir @ ''/'' @ newLang @ ''/'' @ filename)
         else if currentLang = Some ''en'' \<and> newLang = ''ar''
              then currentDir @ ''/ar/'' @ filename
              else currentDir @ ''/'' @ newLang @ ''/'' @ filename)"

definition serverNewPath :: "string option \<Rightarrow> string \<Rightarrow> string \<Rightarrow> string" where
  \<comment> \<open>\<open>newPath\<close> of the server branch of \<open>switchTo\<close>\<close>
  "serverNewPath currentLang path0 newLang =
     (let path1 = (case currentLang of
                     None \<Rightarrow> path0
                   | Some cl \<Rightarrow> js_replace_caret path0 (''/'' @ cl));
          path = (if \<not> js_startsWith path1 ''/'' then ''/'' @ path1 else path1)
      in if newLang = ''en''
         then (if path = ''/'' then ''/'' else path)
         else (if path = ''/'' then ''/'' @ newLang @ ''/'' else ''/'' @ newLang @ path))"

definition switchTo :: "string \<Rightarrow> page \<Rightarrow> outcome" where
  "switchTo newLang s =
     (if newLang \<notin> set SUPPORTED_LANGS
      then Inr (s\<lparr>warnings := warnings s @ [''Unsupported language: '' @ newLang]\<rparr>)
      else
        (let currentLang = getCurrentLang (pathname s)
         in if currentLang = Some newLang then Inr s
            else
              (case savePreference newLang s of
                 Inl e \<Rightarrow> Inl (e, s)
               | Inr s1 \<Rightarrow>
                   (let path = pathname s1;
                        filename = (case js_pop (js_split (CHR ''/'') path) of
                                      None \<Rightarrow> ''index.html''
                                    | Some f \<Rightarrow> if f = [] then ''index.html'' else f)
                    in if protocol s1 = ''file:''
                       then Inr (s1\<lparr>navigations := navigations s1 @
                                   [fileNewPath currentLang path filename newLang]\<rparr>)
                       else Inr (s1\<lparr>navigations := navigations s1 @
                                   [serverNewPath currentLang path newLang]\<rparr>)))))"

definition getAlternateUrl :: "string \<Rightarrow> string \<Rightarrow> string" where
  \<comment> \<open>\<open>getAlternateUrl lang\<close> on a page whose path is \<open>path0\<close>\<close>
  "getAlternateUrl path0 lang =
     (let currentLang = (case getCurrentLang path0 of None \<Rightarrow> DEFAULT_LANG | Some cl \<Rightarrow> cl);
          path1 = js_replace_caret path0 (''/'' @ currentLang);
          path = (if \<not> js_startsWith path1 ''/'' then ''/'' @ path1 else path1)
      in ''/'' @ lang @ (if path = ''/'' then ''/'' else path))"

definition bindEvents :: "page \<Rightarrow> page" where
  "bindEvents s =
     s\<lparr>elements :=
          map (\<lambda>el. if has_switch_lang el then el\<lparr>listeners := listeners el + 1\<rparr> else el)
            (map (\<lambda>el. if is_switch_btn el then el\<lparr>listeners := listeners el + 1\<rparr> else el)
               (elements s))\<rparr>"

definition init :: "page \<Rightarrow> outcome" where
  "init s = (case detectAndRedirect s of Inl e \<Rightarrow> Inl e | Inr s1 \<Rightarrow> Inr (bindEvents s1))"

subsection \<open>Notions used in the statements\<close>

definition toLocale :: "string \<Rightarrow> string \<Rightarrow> string" where
  \<comment> \<open>The networked rewrite as \<open>switchTo\<close> performs it on a page whose path is \<open>path\<close>:
      the current locale is the one \<open>getCurrentLang\<close> reads from that path.\<close>
  "toLocale path target = serverNewPath (getCurrentLang path) path target"

definition rooted :: "string \<Rightarrow> string" where
  \<comment> \<open>the step \<^verbatim>\<open>if (!path.startsWith('/')) path = '/' + path\<close>\<close>
  "rooted p = (if \<not> js_startsWith p ''/'' then ''/'' @ p else p)"

definition alt_stripped :: "string \<Rightarrow> string" where
  \<comment> \<open>The stripped path of \<open>getAlternateUrl\<close>, made to start with a separator.\<close>
  "alt_stripped path =
     rooted (js_replace_caret path
       (''/'' @ (case getCurrentLang path of None \<Rightarrow> DEFAULT_LANG | Some c \<Rightarrow> c)))"

definition web_page :: "string \<Rightarrow> page" where
  \<comment> \<open>A freshly loaded page served over https, with an empty store and no elements.\<close>
  "web_page path =
     \<lparr>pathname = path, protocol = ''https:'', language = ''en-US'',
      localStorage = Enabled Map.empty, navigations = [], warnings = [],
      html_attrs = Map.empty, elements = []\<rparr>"

definition locale_root :: "string \<Rightarrow> string" where
  \<comment> \<open>The path that the relative reference \<open>./l/\<close> denotes on the root page.\<close>
  "locale_root l = ''/'' @ l @ ''/''"

definition is_site_root :: "string \<Rightarrow> bool" where
  \<comment> \<open>the test \<^verbatim>\<open>path === '/' || path === ''\<close> of \<open>detectAndRedirect\<close>\<close>
  "is_site_root path = (path = ''/'' \<or> path = [])"

definition root_page :: "string option \<Rightarrow> string \<Rightarrow> page" where
  \<comment> \<open>The site root with a given stored preference and browser language.\<close>
  "root_page stored lang =
     (web_page ''/'')\<lparr>language := lang,
        localStorage := Enabled (case stored of None \<Rightarrow> Map.empty | Some v \<Rightarrow> [STORAGE_KEY \<mapsto> v])\<rparr>"

definition has_active_class :: "element \<Rightarrow> bool" where
  "has_active_class el = (''lang-switch__btn--active'' \<in> set (classList el))"

definition has_aria_current :: "element \<Rightarrow> bool" where
  "has_aria_current el = (attrs el ''aria-current'' \<noteq> None)"

definition marked :: "element \<Rightarrow> bool" where
  \<comment> \<open>carries the active class and the \<open>aria-current\<close> marker\<close>
  "marked el = (has_active_class el \<and> attrs el ''aria-current'' = Some ''true'')"

definition unmarked :: "element \<Rightarrow> bool" where
  \<comment> \<open>carries neither\<close>
  "unmarked el = (\<not> has_active_class el \<and> attrs el ''aria-current'' = None)"

definition switch_button :: "string \<Rightarrow> bool \<Rightarrow> element" where
  "switch_button lang active =
     \<lparr>classList = (if active then [''lang-switch__btn'', ''lang-switch__btn--active'']
                   else [''lang-switch__btn'']),
      attrs = (if active then [''data-lang'' \<mapsto> lang, ''aria-current'' \<mapsto> ''true'']
               else [''data-lang'' \<mapsto> lang]),
      listeners = 0\<rparr>"

definition switcher_page :: "string \<Rightarrow> page" where
  \<comment> \<open>A page with an English and an Arabic switch button, the English one active.\<close>
  "switcher_page path =
     (web_page path)\<lparr>elements := [switch_button ''en'' True, switch_button ''ar'' False]\<rparr>"

definition file_page :: "string \<Rightarrow> page" where
  \<comment> \<open>A freshly loaded page opened from disk.\<close>
  "file_page path = (web_page path)\<lparr>protocol := ''file:''\<rparr>"

definition default_document :: "string \<Rightarrow> string" where
  \<comment> \<open>the \<^verbatim>\<open>|| 'index.html'\<close> of \<open>filename\<close>\<close>
  "default_document file = (if file = [] then ''index.html'' else file)"





text \<open>
  The preferred locale in the words of the specification (section 4.1): a stored
  preference if it is a supported locale, else the locale implied by the browser's
  language tag if supported, else the default. A language tag implies the locale named
  by its primary subtag, whatever the case of its letters.
\<close>

definition supported :: "string \<Rightarrow> bool" where
  "supported l = (l = ''en'' \<or> l = ''ar'')"

definition primary_subtag :: "string \<Rightarrow> string" where
  "primary_subtag tag = takeWhile (\<lambda>c. c \<noteq> CHR ''-'') tag"

definition implied_locale :: "string \<Rightarrow> string option" where
  "implied_locale tag =
     (let t = primary_subtag tag
      in if t \<in> {''en'', ''En'', ''eN'', ''EN''} then Some ''en''
         else if t \<in> {''ar'', ''Ar'', ''aR'', ''AR''} then Some ''ar''
         else None)"

definition preferredLocale :: "string option \<Rightarrow> string \<Rightarrow> string" where
  "preferredLocale stored tag =
     (case stored of
        Some v \<Rightarrow>
          if supported v then v
          else (case implied_locale tag of Some l \<Rightarrow> l | None \<Rightarrow> ''en'')
      | None \<Rightarrow> (case implied_locale tag of Some l \<Rightarrow> l | None \<Rightarrow> ''en''))"

definition blocked_page :: "string \<Rightarrow> page" where
  \<comment> \<open>A page in a browser that refuses access to the store.\<close>
  "blocked_page path = (web_page path)\<lparr>localStorage := Disabled\<rparr>"

definition full_page :: "string \<Rightarrow> page" where
  \<comment> \<open>A page in a browser whose store can be read but not written.\<close>
  "full_page path = (web_page path)\<lparr>localStorage := ReadOnly Map.empty\<rparr>"

definition switched_path :: "string \<Rightarrow> string \<Rightarrow> string" where
  \<comment> \<open>The path of the page the browser shows after \<open>switchTo target\<close> on a networked
      page at \<open>path\<close>: the same page when the target is the current locale (the guard
      \<^verbatim>\<open>if (currentLang === newLang) return\<close>), the rewritten path otherwise.\<close>
  "switched_path path target =
     (if getCurrentLang path = Some target then path else toLocale path target)"




section \<open>Properties\<close>

subsection \<open>Auxiliary facts\<close>

lemma getCurrentLang_cases:
  "getCurrentLang p = None \<or> getCurrentLang p = Some ''ar'' \<or> getCurrentLang p = Some ''en''"
  by (simp add: getCurrentLang_def)

lemma getCurrentLang_supported: "getCurrentLang p = Some l \<Longrightarrow> l \<in> set SUPPORTED_LANGS"
  using getCurrentLang_cases [of p] by (auto simp: SUPPORTED_LANGS_def)

lemma getCurrentLang_ar_prefix: "prefix ''/ar/'' r \<Longrightarrow> getCurrentLang r = Some ''ar''"
proof -
  assume "prefix ''/ar/'' r"
  then obtain t where r: "r = ''/ar/'' @ t" by (auto simp: prefix_def)
  have "r = ''/'' @ ''ar/'' @ t" by (simp add: r)
  then have "sublist ''ar/'' r" unfolding sublist_def by blast
  then show ?thesis by (simp add: getCurrentLang_def js_includes_def)
qed

lemma rooted_prefix: "prefix ''/'' (rooted p)"
  by (simp add: rooted_def js_startsWith_def)



lemma serverNewPath_other:
  "l \<noteq> ''en'' \<Longrightarrow> serverNewPath cur p l =
     ''/'' @ l @ rooted (case cur of None \<Rightarrow> p | Some c \<Rightarrow> js_replace_caret p (''/'' @ c))"
  by (simp add: serverNewPath_def rooted_def Let_def)


lemma toLocale_ar_form: "\<exists>q. toLocale path ''ar'' = ''/ar'' @ q \<and> prefix ''/'' q"
  using rooted_prefix by (auto simp: toLocale_def serverNewPath_other)

lemma getCurrentLang_toLocale_ar: "getCurrentLang (toLocale path ''ar'') = Some ''ar''"
proof -
  obtain q where q: "toLocale path ''ar'' = ''/ar'' @ q" and pq: "prefix ''/'' q"
    using toLocale_ar_form by blast
  from pq obtain t where "q = ''/'' @ t" by (auto simp: prefix_def)
  then have "prefix ''/ar/'' (toLocale path ''ar'')" by (simp add: q)
  then show ?thesis by (rule getCurrentLang_ar_prefix)
qed

lemma nondefault_is_ar: "l \<in> set SUPPORTED_LANGS \<Longrightarrow> l \<noteq> DEFAULT_LANG \<Longrightarrow> l = ''ar''"
  by (auto simp: SUPPORTED_LANGS_def DEFAULT_LANG_def)

lemma web_page_sel:
  "pathname (web_page p) = p" "protocol (web_page p) = ''https:''"
  "localStorage (web_page p) = Enabled Map.empty" "navigations (web_page p) = []"
  by (simp_all add: web_page_def)

lemma detectAndRedirect_routed:
  "getCurrentLang (pathname s) = Some l \<Longrightarrow> localStorage s = Enabled m \<Longrightarrow>
   detectAndRedirect s =
     Inr (updateLanguageSwitcher l
            (updateHtmlAttributes l (s\<lparr>localStorage := Enabled (m(STORAGE_KEY \<mapsto> l))\<rparr>)))"
  by (simp add: detectAndRedirect_def savePreference_def setItem_def)

lemma navigations_routed:
  "navigations (updateLanguageSwitcher l (updateHtmlAttributes l s)) = navigations s"
  by (simp add: updateLanguageSwitcher_def updateHtmlAttributes_def)

subsection \<open>Round trip of the networked rewrite\<close>

text \<open>
  C4 (as stated): for every supported locale \<open>L\<close> and every networked path other than the
  site root, \<open>getCurrentLang\<close> of the path that the networked rewrite produces for target
  \<open>L\<close> is \<open>L\<close>. This fails for the default locale: its pages are served without a prefix,
  so the rewritten path \<^verbatim>\<open>/projects/detail.html\<close> carries no locale at all.
\<close>

theorem roundtrip_default_counterexample:
  "''en'' \<in> set SUPPORTED_LANGS \<and> ''/ar/projects/detail.html'' \<noteq> ''/'' \<and>
   getCurrentLang (toLocale ''/ar/projects/detail.html'' ''en'') \<noteq> Some ''en''"
  by code_simp

text \<open>
  C4 (amended): for every supported locale \<open>L\<close> other than the default one and every
  networked path, the root included, \<open>getCurrentLang\<close> of the path rewritten for target
  \<open>L\<close> is \<open>L\<close>.
\<close>

theorem roundtrip_nondefault:
  "l \<in> set SUPPORTED_LANGS \<Longrightarrow> l \<noteq> DEFAULT_LANG \<Longrightarrow> getCurrentLang (toLocale path l) = Some l"
  using nondefault_is_ar [of l] by (simp add: getCurrentLang_toLocale_ar)

theorem roundtrip_nondefault_witness:
  "''ar'' \<in> set SUPPORTED_LANGS \<and> ''ar'' \<noteq> DEFAULT_LANG \<and>
   getCurrentLang (toLocale ''/projects/detail.html'' ''ar'') = Some ''ar''"
  using roundtrip_nondefault [of "''ar''" "''/projects/detail.html''"]
  by (simp add: SUPPORTED_LANGS_def DEFAULT_LANG_def)

subsection \<open>Unsupported and unchanged targets\<close>

text \<open>
  C6: for every code outside the supported set, \<open>switchTo\<close> writes exactly one warning
  to the console and returns: it requests no navigation, does not write the store, and
  leaves everything else as it was.
\<close>

theorem switchTo_unsupported:
  "newLang \<notin> set SUPPORTED_LANGS \<Longrightarrow>
   (\<exists>s'. switchTo newLang s = Inr s' \<and>
      warnings s' = warnings s @ [''Unsupported language: '' @ newLang] \<and>
      navigations s' = navigations s \<and> localStorage s' = localStorage s \<and>
      s'\<lparr>warnings := warnings s\<rparr> = s)"
  by (simp add: switchTo_def)

theorem switchTo_unsupported_witness:
  "''fr'' \<notin> set SUPPORTED_LANGS \<and>
   (\<exists>s'. switchTo ''fr'' (web_page ''/ar/'') = Inr s' \<and>
      warnings s' = warnings (web_page ''/ar/'') @ [''Unsupported language: fr''] \<and>
      navigations s' = navigations (web_page ''/ar/'') \<and>
      localStorage s' = localStorage (web_page ''/ar/'') \<and>
      s'\<lparr>warnings := warnings (web_page ''/ar/'')\<rparr> = web_page ''/ar/'')"
  using switchTo_unsupported [of "''fr''" "web_page ''/ar/''"]
  by (simp add: SUPPORTED_LANGS_def)

text \<open>
  C7: when the address resolves to the locale \<open>L\<close>, \<open>switchTo L\<close> returns with the page
  as it was: the store is not written, no navigation is requested, the address stays.
\<close>

theorem switchTo_same_locale:
  "getCurrentLang (pathname s) = Some l \<Longrightarrow> switchTo l s = Inr s"
  using getCurrentLang_supported [of "pathname s" l] by (simp add: switchTo_def)

theorem switchTo_same_locale_witness:
  "getCurrentLang (pathname (web_page ''/ar/projects/detail.html'')) = Some ''ar'' \<and>
   switchTo ''ar'' (web_page ''/ar/projects/detail.html'') = Inr (web_page ''/ar/projects/detail.html'')"
proof -
  have h: "getCurrentLang (pathname (web_page ''/ar/projects/detail.html'')) = Some ''ar''"
    by (simp add: web_page_def getCurrentLang_ar_prefix)
  show ?thesis using h switchTo_same_locale [OF h] by simp
qed

subsection \<open>Alternate links\<close>

text \<open>
  C10: for every path and every argument \<open>lang\<close>, \<open>getAlternateUrl lang\<close> begins with
  \<open>'/' + lang\<close>, for the default locale too (where the networked rewrite of \<open>switchTo\<close>
  adds no prefix), and is \<open>'/' + lang + '/'\<close> when the stripped path is the root.
\<close>

theorem getAlternateUrl_prefixed:
  "prefix (''/'' @ lang) (getAlternateUrl path lang) \<and>
   getAlternateUrl path lang = ''/'' @ lang @ alt_stripped path \<and>
   prefix ''/'' (alt_stripped path) \<and>
   (alt_stripped path = ''/'' \<longrightarrow> getAlternateUrl path lang = ''/'' @ lang @ ''/'')"
  by (simp add: getAlternateUrl_def alt_stripped_def rooted_def Let_def js_startsWith_def)

theorem getAlternateUrl_prefixed_witness:
  "alt_stripped ''/ar/'' = ''/'' \<and> getAlternateUrl ''/ar/'' ''en'' = ''/en/'' \<and>
   prefix ''/en'' (getAlternateUrl ''/ar/projects/detail.html'' ''en'') \<and>
   getAlternateUrl ''/ar/projects/detail.html'' ''en'' = ''/en/projects/detail.html'' \<and>
   toLocale ''/ar/projects/detail.html'' ''en'' = ''/projects/detail.html''"
proof -
  have h: "alt_stripped ''/ar/'' = ''/''" by code_simp
  have a: "alt_stripped ''/ar/projects/detail.html'' = ''/projects/detail.html''" by code_simp
  have t: "toLocale ''/ar/projects/detail.html'' ''en'' = ''/projects/detail.html''" by code_simp
  show ?thesis
    using h a t getAlternateUrl_prefixed [of "''en''" "''/ar/''"]
      getAlternateUrl_prefixed [of "''en''" "''/ar/projects/detail.html''"]
    by simp
qed

subsection \<open>The language switcher\<close>

lemma switcher_btn_keeps:
  "is_switch_btn (switcher_btn l b) = is_switch_btn b"
  "attrs (switcher_btn l b) ''data-lang'' = attrs b ''data-lang''"
  by (simp_all add: switcher_btn_def is_switch_btn_def classList_add_def classList_remove_def)

lemma switcher_btn_marks:
  "attrs b ''data-lang'' = Some l \<Longrightarrow> marked (switcher_btn l b)"
  "attrs b ''data-lang'' \<noteq> Some l \<Longrightarrow> unmarked (switcher_btn l b)"
  by (simp_all add: switcher_btn_def marked_def unmarked_def has_active_class_def
      classList_add_def classList_remove_def)

lemma marks_agree:
  "marked b \<Longrightarrow> has_active_class b \<longleftrightarrow> has_aria_current b"
  "unmarked b \<Longrightarrow> has_active_class b \<longleftrightarrow> has_aria_current b"
  by (simp_all add: marked_def unmarked_def has_aria_current_def)

lemma elements_routed:
  "elements (updateLanguageSwitcher l (updateHtmlAttributes l s)) =
     map (\<lambda>el. if is_switch_btn el then switcher_btn l el else el) (elements s)"
  by (simp add: updateLanguageSwitcher_def updateHtmlAttributes_def)

text \<open>
  C9: after a resolution from an address that carries the locale \<open>l\<close> (with a working
  store), every switch button stays a switch button bound to the same locale; the
  buttons bound to \<open>l\<close> carry both the active class and \<open>aria-current\<close>, every other
  switch button carries neither, and on no switch button do the two disagree.
\<close>

theorem switcher_in_lockstep:
  assumes "getCurrentLang (pathname s) = Some l" and "localStorage s = Enabled m"
  shows "\<exists>s'. detectAndRedirect s = Inr s' \<and> length (elements s') = length (elements s) \<and>
     (\<forall>i < length (elements s). is_switch_btn (elements s ! i) \<longrightarrow>
        is_switch_btn (elements s' ! i) \<and>
        attrs (elements s' ! i) ''data-lang'' = attrs (elements s ! i) ''data-lang'' \<and>
        (if attrs (elements s ! i) ''data-lang'' = Some l
         then marked (elements s' ! i) else unmarked (elements s' ! i)) \<and>
        (has_active_class (elements s' ! i) \<longleftrightarrow> has_aria_current (elements s' ! i)))"
proof -
  let ?s' = "updateLanguageSwitcher l
            (updateHtmlAttributes l (s\<lparr>localStorage := Enabled (m(STORAGE_KEY \<mapsto> l))\<rparr>))"
  have r: "detectAndRedirect s = Inr ?s'"
    using assms by (rule detectAndRedirect_routed)
  have e: "elements ?s' = map (\<lambda>el. if is_switch_btn el then switcher_btn l el else el) (elements s)"
    by (simp add: elements_routed)
  have "is_switch_btn (elements ?s' ! i) \<and>
        attrs (elements ?s' ! i) ''data-lang'' = attrs (elements s ! i) ''data-lang'' \<and>
        (if attrs (elements s ! i) ''data-lang'' = Some l
         then marked (elements ?s' ! i) else unmarked (elements ?s' ! i)) \<and>
        (has_active_class (elements ?s' ! i) \<longleftrightarrow> has_aria_current (elements ?s' ! i))"
    if "i < length (elements s)" and "is_switch_btn (elements s ! i)" for i
  proof -
    have n: "elements ?s' ! i = switcher_btn l (elements s ! i)"
      using that by (simp add: e)
    show ?thesis
      unfolding n
      using that(2) switcher_btn_marks [of "elements s ! i" l] marks_agree
      by (simp add: switcher_btn_keeps)
  qed
  moreover have "length (elements ?s') = length (elements s)" by (simp add: e)
  ultimately show ?thesis using r by blast
qed

theorem switcher_in_lockstep_witness:
  "getCurrentLang (pathname (switcher_page ''/ar/'')) = Some ''ar'' \<and>
   localStorage (switcher_page ''/ar/'') = Enabled Map.empty \<and>
   (\<exists>s'. detectAndRedirect (switcher_page ''/ar/'') = Inr s' \<and>
      unmarked (elements s' ! 0) \<and> marked (elements s' ! 1))"
proof -
  let ?p = "switcher_page ''/ar/''"
  have "getCurrentLang ''/ar/'' = Some ''ar''" by code_simp
  then have g: "getCurrentLang (pathname ?p) = Some ''ar''"
    by (simp add: switcher_page_def web_page_def)
  have st: "localStorage ?p = Enabled Map.empty" by (simp add: switcher_page_def web_page_def)
  have el: "elements ?p = [switch_button ''en'' True, switch_button ''ar'' False]"
    by (simp add: switcher_page_def)
  have b: "is_switch_btn (switch_button ''en'' True)" "is_switch_btn (switch_button ''ar'' False)"
    "attrs (switch_button ''en'' True) ''data-lang'' = Some ''en''"
    "attrs (switch_button ''ar'' False) ''data-lang'' = Some ''ar''"
    by (simp_all add: switch_button_def is_switch_btn_def)
  from switcher_in_lockstep [OF g st] obtain s' where
    d: "detectAndRedirect ?p = Inr s'" and
    a: "\<forall>i < length (elements ?p). is_switch_btn (elements ?p ! i) \<longrightarrow>
        is_switch_btn (elements s' ! i) \<and>
        attrs (elements s' ! i) ''data-lang'' = attrs (elements ?p ! i) ''data-lang'' \<and>
        (if attrs (elements ?p ! i) ''data-lang'' = Some ''ar''
         then marked (elements s' ! i) else unmarked (elements s' ! i)) \<and>
        (has_active_class (elements s' ! i) \<longleftrightarrow> has_aria_current (elements s' ! i))"
    by blast
  from a [rule_format, of 0] have "unmarked (elements s' ! 0)" by (simp add: el b)
  moreover from a [rule_format, of 1] have "marked (elements s' ! 1)" by (simp add: el b)
  ultimately show ?thesis using g st d by blast
qed

subsection \<open>The local-file rewrite of \<open>switchTo\<close>\<close>

lemma js_split_nonempty: "js_split sep xs \<noteq> []"
  by (induction xs) (auto split: list.splits)

lemma js_split_no_sep: "sep \<notin> set xs \<Longrightarrow> js_split sep xs = [xs]"
  by (induction xs) auto

lemma js_split_append: "js_split sep (a @ sep # b) = js_split sep a @ js_split sep b"
proof (induction a)
  case Nil
  show ?case by simp
next
  case (Cons x a)
  obtain w ws where w: "js_split sep a = w # ws"
    using js_split_nonempty [of sep a] by (cases "js_split sep a") auto
  show ?case by (simp add: Cons w)
qed

lemma js_pop_last: "xs \<noteq> [] \<Longrightarrow> js_pop xs = Some (last xs)"
  by (cases xs rule: rev_cases) (simp_all add: js_pop_def)

lemma pop_split_path:
  "CHR ''/'' \<notin> set file \<Longrightarrow> js_pop (js_split (CHR ''/'') (dir @ ''/'' @ file)) = Some file"
  by (simp add: js_split_append js_split_no_sep js_pop_last js_split_nonempty)

lemma lastIndexOf_absent: "c \<notin> set xs \<Longrightarrow> js_lastIndexOf xs c = - 1"
  by (induction xs) (auto simp: Let_def)

lemma lastIndexOf_append:
  "c \<notin> set file \<Longrightarrow> js_lastIndexOf (dir @ c # file) c = int (length dir)"
  by (induction dir) (auto simp: Let_def lastIndexOf_absent)

lemma dir_of_path:
  "CHR ''/'' \<notin> set file \<Longrightarrow>
   js_substring0 (dir @ ''/'' @ file) (js_lastIndexOf (dir @ ''/'' @ file) (CHR ''/'')) = dir"
  by (simp add: lastIndexOf_append js_substring0_def)

text \<open>
  On a path \<open>dir/file\<close> the local-file branch navigates to \<open>fileNewPath\<close>; inside the
  folder of the current locale that is the parent folder (plus the target folder for a
  target other than \<open>en\<close>), and the target folder below \<open>dir\<close> when \<open>dir\<close> does not end
  with \<open>'/' + currentLang\<close>.
\<close>

lemma switchTo_file:
  assumes "protocol s = ''file:''" and "pathname s = dir @ ''/'' @ file"
    and "CHR ''/'' \<notin> set file" and "newLang \<in> set SUPPORTED_LANGS"
    and "getCurrentLang (pathname s) \<noteq> Some newLang" and "localStorage s = Enabled m"
  shows "switchTo newLang s =
     Inr (s\<lparr>localStorage := Enabled (m(STORAGE_KEY \<mapsto> newLang)),
           navigations := navigations s @
             [fileNewPath (getCurrentLang (pathname s)) (pathname s) (default_document file) newLang]\<rparr>)"
proof -
  have "js_pop (js_split (CHR ''/'') (pathname s)) = Some file"
    using pop_split_path [OF assms(3), of dir] by (simp add: assms(2))
  then show ?thesis
    using assms(1,4,5,6)
    by (simp add: switchTo_def savePreference_def setItem_def Let_def default_document_def)
qed

lemma fileNewPath_locale_folder:
  assumes "CHR ''/'' \<notin> set file" and "CHR ''/'' \<notin> set c"
  shows "fileNewPath (Some c) (parent @ ''/'' @ c @ ''/'' @ file) fn newLang =
     (if newLang = ''en'' then parent @ ''/'' @ fn else parent @ ''/'' @ newLang @ ''/'' @ fn)"
proof -
  have d: "js_substring0 (parent @ ''/'' @ c @ ''/'' @ file)
      (js_lastIndexOf (parent @ ''/'' @ c @ ''/'' @ file) (CHR ''/'')) = parent @ ''/'' @ c"
    using dir_of_path [OF assms(1), of "parent @ ''/'' @ c"] by simp
  have p: "js_substring0 (parent @ ''/'' @ c) (js_lastIndexOf (parent @ ''/'' @ c) (CHR ''/'')) = parent"
    using dir_of_path [OF assms(2), of parent] by simp
  have e: "js_endsWith (parent @ ''/'' @ c) (''/'' @ js_str (Some c))"
    by (simp add: js_endsWith_def js_str_def suffix_def)
  show ?thesis
    unfolding fileNewPath_def d Let_def using e p by simp
qed

lemma fileNewPath_default_folder:
  assumes "CHR ''/'' \<notin> set file" and "\<not> suffix (''/'' @ js_str cur) dir"
  shows "fileNewPath cur (dir @ ''/'' @ file) fn newLang = dir @ ''/'' @ newLang @ ''/'' @ fn"
proof -
  have d: "js_substring0 (dir @ ''/'' @ file)
      (js_lastIndexOf (dir @ ''/'' @ file) (CHR ''/'')) = dir"
    using dir_of_path [OF assms(1)] .
  show ?thesis
    unfolding fileNewPath_def d Let_def using assms(2) by (simp add: js_endsWith_def)
qed

lemma file_page_sel:
  "pathname (file_page p) = p" "protocol (file_page p) = ''file:''"
  "localStorage (file_page p) = Enabled Map.empty" "navigations (file_page p) = []"
  by (simp_all add: file_page_def web_page_def)

text \<open>
  C2: in local-file mode, from inside the folder of the current non-default locale
  \<open>switchTo\<close> goes to the parent folder (plus the target folder for a target other than
  \<open>en\<close>), and from the default-locale folder \<open>switchTo\<close> to a non-default locale goes to
  the target folder below the enclosing folder. The code misses the last part in a folder
  named \<open>null\<close>: no locale is read from \<^verbatim>\<open>/site/null/index.html\<close>, the test
  \<^verbatim>\<open>currentDir.endsWith('/' + currentLang)\<close> then compares with \<^verbatim>\<open>/null\<close> and holds, and
  \<open>switchTo ar\<close> goes to \<^verbatim>\<open>/site/ar/index.html\<close>, not to \<^verbatim>\<open>/site/null/ar/index.html\<close>.
  From the folder \<^verbatim>\<open>/site/docs\<close> it goes to \<^verbatim>\<open>/site/docs/ar/index.html\<close>.
\<close>

theorem switchTo_file_null_folder:
  "getCurrentLang ''/site/null/index.html'' = None \<and>
   switchTo ''ar'' (file_page ''/site/null/index.html'') =
     Inr ((file_page ''/site/null/index.html'')
            \<lparr>localStorage := Enabled [STORAGE_KEY \<mapsto> ''ar''],
             navigations := [''/site/ar/index.html'']\<rparr>) \<and>
   getCurrentLang ''/site/docs/index.html'' = None \<and>
   switchTo ''ar'' (file_page ''/site/docs/index.html'') =
     Inr ((file_page ''/site/docs/index.html'')
            \<lparr>localStorage := Enabled [STORAGE_KEY \<mapsto> ''ar''],
             navigations := [''/site/docs/ar/index.html'']\<rparr>)"
proof -
  have ar: "''ar'' \<in> set SUPPORTED_LANGS" by (simp add: SUPPORTED_LANGS_def)
  have ns: "CHR ''/'' \<notin> set ''index.html''" by simp
  have g: "getCurrentLang ''/site/null/index.html'' = None"
    and g': "getCurrentLang ''/site/docs/index.html'' = None" by code_simp+
  have f: "fileNewPath None ''/site/null/index.html'' ''index.html'' ''ar'' = ''/site/ar/index.html''"
    and f': "fileNewPath None ''/site/docs/index.html'' ''index.html'' ''ar''
       = ''/site/docs/ar/index.html''" by code_simp+
  have dd: "default_document ''index.html'' = ''index.html''" by (simp add: default_document_def)
  have "switchTo ''ar'' (file_page ''/site/null/index.html'') =
     Inr ((file_page ''/site/null/index.html'')
            \<lparr>localStorage := Enabled [STORAGE_KEY \<mapsto> ''ar''],
             navigations := [''/site/ar/index.html'']\<rparr>)"
    using switchTo_file [of "file_page ''/site/null/index.html''" "''/site/null''" "''index.html''"
        "''ar''" Map.empty, OF _ _ ns ar]
    by (simp add: file_page_sel g f dd)
  moreover have "switchTo ''ar'' (file_page ''/site/docs/index.html'') =
     Inr ((file_page ''/site/docs/index.html'')
            \<lparr>localStorage := Enabled [STORAGE_KEY \<mapsto> ''ar''],
             navigations := [''/site/docs/ar/index.html'']\<rparr>)"
    using switchTo_file [of "file_page ''/site/docs/index.html''" "''/site/docs''" "''index.html''"
        "''ar''" Map.empty, OF _ _ ns ar]
    by (simp add: file_page_sel g' f' dd)
  ultimately show ?thesis using g g' by blast
qed

lemma spec_examples_file:
  "fileNewPath (getCurrentLang ''.../site/ar/index.html'') ''.../site/ar/index.html'' ''index.html'' ''en''
     = ''.../site/index.html''"
  "fileNewPath (getCurrentLang ''.../site/index.html'') ''.../site/index.html'' ''index.html'' ''ar''
     = ''.../site/ar/index.html''"
  by code_simp+

subsection \<open>The networked rewrite of \<open>switchTo\<close>\<close>










subsection \<open>Idempotence of the networked rewrite\<close>

lemma switchTo_lands:
  assumes "protocol s \<noteq> ''file:''" and "l \<in> set SUPPORTED_LANGS" and "localStorage s = Enabled m"
  shows "\<exists>s'. switchTo l s = Inr s' \<and>
     navigations s' = navigations s @
       (if getCurrentLang (pathname s) = Some l then [] else [switched_path (pathname s) l])"
  using assms
  by (simp add: switchTo_def savePreference_def setItem_def Let_def toLocale_def switched_path_def)









subsection \<open>Redirect on load\<close>

lemma lower_char_eq:
  assumes k: "(of_char d :: nat) = k" and lo: "97 \<le> k" and hi: "k \<le> 122"
  shows "lower_char c = d \<longleftrightarrow> c = d \<or> c = char_of (k - 32)"
proof -
  let ?n = "of_char c :: nat"
  have up: "(of_char (char_of (k - 32) :: char) :: nat) = k - 32"
    using hi by simp
  show ?thesis
  proof (cases "65 \<le> ?n \<and> ?n \<le> 90")
    case True
    then have "(of_char (lower_char c) :: nat) = ?n + 32"
      by (simp add: lower_char_def Let_def)
    then have "lower_char c = d \<longleftrightarrow> ?n + 32 = k"
      using k of_char_eq_iff [of "lower_char c" d, where ?'a = nat] by simp
    also have "\<dots> \<longleftrightarrow> ?n = k - 32" using lo by auto
    also have "\<dots> \<longleftrightarrow> c = char_of (k - 32)"
      using up of_char_eq_iff [of c "char_of (k - 32)", where ?'a = nat] by simp
    finally have a: "lower_char c = d \<longleftrightarrow> c = char_of (k - 32)" .
    have "c \<noteq> d" using True k lo by auto
    with a show ?thesis by simp
  next
    case False
    then have l: "lower_char c = c" by (auto simp: lower_char_def Let_def)
    have "c \<noteq> char_of (k - 32)" using False up lo hi by auto
    with l show ?thesis by simp
  qed
qed

lemma upper_codes:
  "char_of (65 :: nat) = CHR ''A''" "char_of (82 :: nat) = CHR ''R''"
  "char_of (69 :: nat) = CHR ''E''" "char_of (78 :: nat) = CHR ''N''"
  by (simp_all add: char_of_eq_iff)

lemma lower_char_letters:
  "lower_char c = CHR ''a'' \<longleftrightarrow> c = CHR ''a'' \<or> c = CHR ''A''"
  "lower_char c = CHR ''r'' \<longleftrightarrow> c = CHR ''r'' \<or> c = CHR ''R''"
  "lower_char c = CHR ''e'' \<longleftrightarrow> c = CHR ''e'' \<or> c = CHR ''E''"
  "lower_char c = CHR ''n'' \<longleftrightarrow> c = CHR ''n'' \<or> c = CHR ''N''"
  using lower_char_eq [of "CHR ''a''" 97 c] lower_char_eq [of "CHR ''r''" 114 c]
    lower_char_eq [of "CHR ''e''" 101 c] lower_char_eq [of "CHR ''n''" 110 c]
  by (simp_all add: upper_codes)

lemma lowered_ar: "js_toLowerCase t = ''ar'' \<longleftrightarrow> t \<in> {''ar'', ''Ar'', ''aR'', ''AR''}"
proof -
  have "map lower_char t = ''ar'' \<longleftrightarrow>
      (\<exists>x y. t = [x, y] \<and> lower_char x = CHR ''a'' \<and> lower_char y = CHR ''r'')"
    by (auto simp: map_eq_Cons_conv)
  then show ?thesis by (auto simp: js_toLowerCase_def lower_char_letters)
qed

lemma lowered_en: "js_toLowerCase t = ''en'' \<longleftrightarrow> t \<in> {''en'', ''En'', ''eN'', ''EN''}"
proof -
  have "map lower_char t = ''en'' \<longleftrightarrow>
      (\<exists>x y. t = [x, y] \<and> lower_char x = CHR ''e'' \<and> lower_char y = CHR ''n'')"
    by (auto simp: map_eq_Cons_conv)
  then show ?thesis by (auto simp: js_toLowerCase_def lower_char_letters)
qed

lemma split_first: "(case js_split sep l of [] \<Rightarrow> [] | x # _ \<Rightarrow> x) = takeWhile (\<lambda>c. c \<noteq> sep) l"
  by (induction l) (auto split: list.splits)

lemma browserLang_subtag: "browserLang s = js_toLowerCase (primary_subtag (language s))"
  by (simp add: browserLang_def primary_subtag_def split_first)

lemma browserLang_implied:
  "(if browserLang s \<in> set SUPPORTED_LANGS then browserLang s else DEFAULT_LANG)
     = (case implied_locale (language s) of Some l \<Rightarrow> l | None \<Rightarrow> ''en'')"
proof -
  let ?t = "primary_subtag (language s)"
  consider "js_toLowerCase ?t = ''en''" | "js_toLowerCase ?t = ''ar''"
    | "js_toLowerCase ?t \<noteq> ''en''" "js_toLowerCase ?t \<noteq> ''ar''" by blast
  then show ?thesis
  proof cases
    case 1
    moreover from 1 have "?t \<in> {''en'', ''En'', ''eN'', ''EN''}" by (simp only: lowered_en)
    ultimately show ?thesis
      by (simp add: browserLang_subtag implied_locale_def SUPPORTED_LANGS_def Let_def)
  next
    case 2
    moreover from 2 have "?t \<in> {''ar'', ''Ar'', ''aR'', ''AR''}" by (simp only: lowered_ar)
    moreover from 2 have "?t \<notin> {''en'', ''En'', ''eN'', ''EN''}"
      using lowered_en [of ?t] by simp
    ultimately show ?thesis
      by (simp add: browserLang_subtag implied_locale_def SUPPORTED_LANGS_def Let_def)
  next
    case 3
    then have "?t \<notin> {''en'', ''En'', ''eN'', ''EN''}" "?t \<notin> {''ar'', ''Ar'', ''aR'', ''AR''}"
      using lowered_en [of ?t] lowered_ar [of ?t] by simp_all
    with 3 show ?thesis
      by (simp add: browserLang_subtag implied_locale_def SUPPORTED_LANGS_def DEFAULT_LANG_def Let_def)
  qed
qed

lemma supported_iff: "supported l \<longleftrightarrow> l \<in> set SUPPORTED_LANGS"
  by (auto simp: supported_def SUPPORTED_LANGS_def)

lemma getPreferredLang_enabled:
  "localStorage s = Enabled m \<or> localStorage s = ReadOnly m \<Longrightarrow>
   getPreferredLang s = Inr (preferredLocale (m STORAGE_KEY) (language s))"
proof -
  assume st: "localStorage s = Enabled m \<or> localStorage s = ReadOnly m"
  then have g: "getItem (localStorage s) STORAGE_KEY = Inr (m STORAGE_KEY)"
    by (auto simp: getItem_def)
  have "getPreferredLang s =
      (if (case m STORAGE_KEY of None \<Rightarrow> False | Some v \<Rightarrow> v \<noteq> [] \<and> v \<in> set SUPPORTED_LANGS)
       then Inr (the (m STORAGE_KEY))
       else Inr (if browserLang s \<in> set SUPPORTED_LANGS then browserLang s else DEFAULT_LANG))"
    by (simp add: getPreferredLang_def g)
  then have p: "getPreferredLang s =
      (if (case m STORAGE_KEY of None \<Rightarrow> False | Some v \<Rightarrow> v \<noteq> [] \<and> v \<in> set SUPPORTED_LANGS)
       then Inr (the (m STORAGE_KEY))
       else Inr (case implied_locale (language s) of Some l \<Rightarrow> l | None \<Rightarrow> ''en''))"
    by (simp only: browserLang_implied)
  show ?thesis
  proof (cases "m STORAGE_KEY")
    case None
    then show ?thesis by (simp add: p preferredLocale_def)
  next
    case (Some v)
    have "supported v \<Longrightarrow> v \<noteq> []" by (auto simp: supported_def)
    then show ?thesis
      by (auto simp: p preferredLocale_def Some supported_iff)
  qed
qed

lemma preferredLocale_supported: "supported (preferredLocale stored tag)"
  by (auto simp: preferredLocale_def supported_def implied_locale_def Let_def split: option.splits)

lemma getCurrentLang_locale_root: "supported l \<Longrightarrow> getCurrentLang (locale_root l) = Some l"
proof -
  assume "supported l"
  then consider "l = ''ar''" | "l = ''en''" by (auto simp: supported_def)
  then show ?thesis
  proof cases
    case 1
    have "getCurrentLang ''/ar/'' = Some ''ar''" by code_simp
    then show ?thesis by (simp add: 1 locale_root_def)
  next
    case 2
    have "getCurrentLang ''/en/'' = Some ''en''" by code_simp
    then show ?thesis by (simp add: 2 locale_root_def)
  qed
qed

text \<open>
  C3: on a load whose address carries no locale (and with a working store),
  \<open>detectAndRedirect\<close> requests a navigation if and only if the path is the site root; the
  target is \<open>./l/\<close> for the preferred locale \<open>l\<close>: the stored preference if supported,
  else the locale implied by \<^verbatim>\<open>navigator.language\<close> if supported, else \<open>en\<close>. The load of
  that locale's root requests no further navigation, so the root is reached exactly
  once. With no stored preference and browser language \<open>ar\<close> (or \<open>ar-EG\<close>, or \<open>AR\<close>) the
  target is the \<open>ar\<close> root; with stored preference \<open>en\<close> it is the \<open>en\<close> root whatever
  the browser language; other addresses without a locale are left alone.
\<close>

theorem root_redirect:
  assumes "getCurrentLang (pathname s) = None" and "localStorage s = Enabled m"
  shows "detectAndRedirect s =
           Inr (if is_site_root (pathname s)
                then s\<lparr>navigations := navigations s @
                        [''./'' @ preferredLocale (m STORAGE_KEY) (language s) @ ''/'']\<rparr>
                else s) \<and>
         (\<forall>t n. pathname t = locale_root (preferredLocale (m STORAGE_KEY) (language s)) \<and>
                localStorage t = Enabled n \<longrightarrow>
                (\<exists>t'. detectAndRedirect t = Inr t' \<and> navigations t' = navigations t))"
proof (intro conjI allI impI)
  show "detectAndRedirect s =
           Inr (if is_site_root (pathname s)
                then s\<lparr>navigations := navigations s @
                        [''./'' @ preferredLocale (m STORAGE_KEY) (language s) @ ''/'']\<rparr>
                else s)"
    using assms by (simp add: detectAndRedirect_def is_site_root_def getPreferredLang_enabled)
next
  fix t :: page and n
  let ?l = "preferredLocale (m STORAGE_KEY) (language s)"
  assume h: "pathname t = locale_root ?l \<and> localStorage t = Enabled n"
  then have "getCurrentLang (pathname t) = Some ?l"
    by (simp add: getCurrentLang_locale_root preferredLocale_supported)
  with h show "\<exists>t'. detectAndRedirect t = Inr t' \<and> navigations t' = navigations t"
    by (simp add: detectAndRedirect_routed navigations_routed)
qed

lemma root_page_sel:
  "pathname (root_page stored lang) = ''/''" "language (root_page stored lang) = lang"
  "navigations (root_page stored lang) = []"
  "localStorage (root_page None lang) = Enabled Map.empty"
  "localStorage (root_page (Some v) lang) = Enabled [STORAGE_KEY \<mapsto> v]"
  by (simp_all add: root_page_def web_page_def)

theorem root_redirect_witness:
  "getCurrentLang (pathname (root_page None ''ar'')) = None \<and>
   localStorage (root_page None ''ar'') = Enabled Map.empty \<and>
   detectAndRedirect (root_page None ''ar'') =
     Inr ((root_page None ''ar'')\<lparr>navigations := [''./ar/'']\<rparr>) \<and>
   detectAndRedirect (root_page None ''ar-EG'') =
     Inr ((root_page None ''ar-EG'')\<lparr>navigations := [''./ar/'']\<rparr>) \<and>
   detectAndRedirect (root_page None ''AR'') =
     Inr ((root_page None ''AR'')\<lparr>navigations := [''./ar/'']\<rparr>) \<and>
   detectAndRedirect (root_page None ''fr-FR'') =
     Inr ((root_page None ''fr-FR'')\<lparr>navigations := [''./en/'']\<rparr>) \<and>
   localStorage (root_page (Some ''en'') ''ar'') = Enabled [STORAGE_KEY \<mapsto> ''en''] \<and>
   detectAndRedirect (root_page (Some ''en'') ''ar'') =
     Inr ((root_page (Some ''en'') ''ar'')\<lparr>navigations := [''./en/'']\<rparr>) \<and>
   detectAndRedirect (root_page (Some ''de'') ''ar-EG'') =
     Inr ((root_page (Some ''de'') ''ar-EG'')\<lparr>navigations := [''./ar/'']\<rparr>) \<and>
   getCurrentLang (pathname (web_page ''/projects/detail.html'')) = None \<and>
   localStorage (web_page ''/projects/detail.html'') = Enabled Map.empty \<and>
   detectAndRedirect (web_page ''/projects/detail.html'') = Inr (web_page ''/projects/detail.html'') \<and>
   (\<exists>t'. detectAndRedirect (web_page ''/ar/'') = Inr t' \<and> navigations t' = [])"
proof -
  let ?c = "web_page ''/projects/detail.html''"
  have root: "getCurrentLang ''/'' = None" by code_simp
  have deep: "getCurrentLang ''/projects/detail.html'' = None" by code_simp
  have g: "getCurrentLang (pathname (root_page stored lang)) = None" for stored lang
    by (simp add: root_page_sel root)
  have gc: "getCurrentLang (pathname ?c) = None" by (simp add: web_page_sel deep)
  have sn: "localStorage (root_page None lang) = Enabled Map.empty" for lang
    by (simp add: root_page_sel)
  have ss: "localStorage (root_page (Some v) lang) = Enabled [STORAGE_KEY \<mapsto> v]" for v lang
    by (simp add: root_page_sel)
  have sc: "localStorage ?c = Enabled Map.empty" by (simp add: web_page_sel)
  have p: "preferredLocale None ''ar'' = ''ar''" "preferredLocale None ''ar-EG'' = ''ar''"
    "preferredLocale None ''AR'' = ''ar''" "preferredLocale None ''fr-FR'' = ''en''"
    "preferredLocale (Some ''en'') ''ar'' = ''en''" "preferredLocale (Some ''de'') ''ar-EG'' = ''ar''"
    by code_simp+
  have r: "is_site_root ''/''" "\<not> is_site_root ''/projects/detail.html''"
    by (simp_all add: is_site_root_def)
  have once: "\<exists>t'. detectAndRedirect (web_page ''/ar/'') = Inr t' \<and> navigations t' = []"
    using root_redirect [OF g [of None "''ar''"] sn [of "''ar''"], THEN conjunct2, rule_format,
        of "web_page ''/ar/''" Map.empty]
    by (simp add: root_page_sel p locale_root_def web_page_sel)
  show ?thesis
    using once
      root_redirect [OF g [of None "''ar''"] sn [of "''ar''"]]
      root_redirect [OF g [of None "''ar-EG''"] sn [of "''ar-EG''"]]
      root_redirect [OF g [of None "''AR''"] sn [of "''AR''"]]
      root_redirect [OF g [of None "''fr-FR''"] sn [of "''fr-FR''"]]
      root_redirect [OF g [of "Some ''en''" "''ar''"] ss [of "''en''" "''ar''"]]
      root_redirect [OF g [of "Some ''de''" "''ar-EG''"] ss [of "''de''" "''ar-EG''"]]
      root_redirect [OF gc sc]
    by (simp add: root_page_sel web_page_sel p r root deep)
qed

subsection \<open>A store that throws\<close>

lemma getPreferredLang_disabled:
  "localStorage s = Disabled \<Longrightarrow> getPreferredLang s = Inl SecurityError"
  by (simp add: getPreferredLang_def getItem_def)

lemma savePreference_throws:
  "localStorage s = Disabled \<Longrightarrow> savePreference l s = Inl SecurityError"
  "localStorage s = ReadOnly m \<Longrightarrow> savePreference l s = Inl QuotaExceededError"
  by (simp_all add: savePreference_def setItem_def)

lemma detectAndRedirect_disabled:
  "localStorage s = Disabled \<Longrightarrow>
   detectAndRedirect s =
     (if getCurrentLang (pathname s) \<noteq> None \<or> is_site_root (pathname s)
      then Inl (SecurityError, s) else Inr s)"
  by (auto simp: detectAndRedirect_def getPreferredLang_disabled savePreference_throws
      is_site_root_def split: option.splits)

lemma detectAndRedirect_readonly:
  "localStorage s = ReadOnly m \<Longrightarrow>
   detectAndRedirect s =
     (if getCurrentLang (pathname s) \<noteq> None then Inl (QuotaExceededError, s)
      else if is_site_root (pathname s)
      then Inr (s\<lparr>navigations := navigations s @
                  [''./'' @ preferredLocale (m STORAGE_KEY) (language s) @ ''/'']\<rparr>)
      else Inr s)"
  by (auto simp: detectAndRedirect_def getPreferredLang_enabled savePreference_throws
      is_site_root_def split: option.splits)

lemma detectAndRedirect_enabled:
  "localStorage s = Enabled m \<Longrightarrow> \<exists>s'. detectAndRedirect s = Inr s'"
  by (auto simp: detectAndRedirect_def getPreferredLang_enabled savePreference_def setItem_def
      split: option.splits)

text \<open>
  C8 (as stated): when access to the store fails, resolution goes on as if nothing were
  stored, and no exception leaves \<open>init\<close>, \<open>detectAndRedirect\<close> or \<open>getPreferredLang\<close>.
  The module has no handler around its storage calls: on the root page, and on a page
  whose address carries a locale, the exception leaves all three, and it leaves \<open>init\<close>
  too when only writing fails.
\<close>

theorem storage_failure_counterexample:
  "getPreferredLang (blocked_page ''/'') = Inl SecurityError \<and>
   detectAndRedirect (blocked_page ''/'') = Inl (SecurityError, blocked_page ''/'') \<and>
   init (blocked_page ''/'') = Inl (SecurityError, blocked_page ''/'') \<and>
   init (blocked_page ''/ar/'') = Inl (SecurityError, blocked_page ''/ar/'') \<and>
   init (full_page ''/ar/'') = Inl (QuotaExceededError, full_page ''/ar/'')"
proof -
  have g: "getCurrentLang ''/ar/'' \<noteq> None" by code_simp
  have b: "localStorage (blocked_page p) = Disabled" "pathname (blocked_page p) = p" for p
    by (simp_all add: blocked_page_def web_page_def)
  have f: "localStorage (full_page p) = ReadOnly Map.empty" "pathname (full_page p) = p" for p
    by (simp_all add: full_page_def web_page_def)
  show ?thesis
    using g
    by (simp add: init_def detectAndRedirect_disabled [OF b(1)] detectAndRedirect_readonly [OF f(1)]
        getPreferredLang_disabled [OF b(1)] b(2) f(2) is_site_root_def)
qed

text \<open>
  C8 (amended): with a store that works, \<open>getPreferredLang\<close>, \<open>detectAndRedirect\<close> and
  \<open>init\<close> return normally. With a store that refuses every access, \<open>getPreferredLang\<close>
  throws, and \<open>detectAndRedirect\<close> and \<open>init\<close> throw when the address carries a locale or
  is the site root, leaving the page as it was (no navigation requested, no attribute
  of the document or of a switch button changed, no listener bound); on other addresses
  \<open>detectAndRedirect\<close> changes nothing and \<open>init\<close> binds the events. With a store that
  can be read but not written, \<open>getPreferredLang\<close> returns the preferred locale,
  \<open>detectAndRedirect\<close> and \<open>init\<close> throw on an address that carries a locale, again
  leaving the page as it was, and on an address without a locale they do what they do
  with a working store: the redirect at the root, nothing elsewhere, then the events.
\<close>

theorem storage_failure_propagates:
  "(\<forall>m. localStorage s = Enabled m \<longrightarrow>
      (\<exists>l. getPreferredLang s = Inr l) \<and> (\<exists>s'. detectAndRedirect s = Inr s') \<and>
      (\<exists>s'. init s = Inr s')) \<and>
   (localStorage s = Disabled \<longrightarrow>
      getPreferredLang s = Inl SecurityError \<and>
      (if getCurrentLang (pathname s) \<noteq> None \<or> is_site_root (pathname s)
       then detectAndRedirect s = Inl (SecurityError, s) \<and> init s = Inl (SecurityError, s)
       else detectAndRedirect s = Inr s \<and> init s = Inr (bindEvents s))) \<and>
   (\<forall>m. localStorage s = ReadOnly m \<longrightarrow>
      getPreferredLang s = Inr (preferredLocale (m STORAGE_KEY) (language s)) \<and>
      (if getCurrentLang (pathname s) \<noteq> None
       then detectAndRedirect s = Inl (QuotaExceededError, s) \<and>
            init s = Inl (QuotaExceededError, s)
       else if is_site_root (pathname s)
       then detectAndRedirect s =
              Inr (s\<lparr>navigations := navigations s @
                     [''./'' @ preferredLocale (m STORAGE_KEY) (language s) @ ''/'']\<rparr>) \<and>
            init s =
              Inr (bindEvents (s\<lparr>navigations := navigations s @
                     [''./'' @ preferredLocale (m STORAGE_KEY) (language s) @ ''/'']\<rparr>))
       else detectAndRedirect s = Inr s \<and> init s = Inr (bindEvents s)))"
proof (cases "localStorage s")
  case Disabled
  then show ?thesis
    by (simp add: init_def detectAndRedirect_disabled getPreferredLang_disabled)
next
  case (ReadOnly m)
  then show ?thesis
    by (simp add: init_def detectAndRedirect_readonly getPreferredLang_enabled)
next
  case (Enabled m)
  obtain s' where "detectAndRedirect s = Inr s'"
    using detectAndRedirect_enabled [OF Enabled] by blast
  then show ?thesis
    by (simp add: Enabled init_def getPreferredLang_enabled)
qed

theorem storage_failure_propagates_witness:
  "localStorage (web_page ''/'') = Enabled Map.empty \<and>
   (\<exists>l. getPreferredLang (web_page ''/'') = Inr l) \<and>
   (\<exists>s'. init (web_page ''/'') = Inr s') \<and>
   localStorage (blocked_page ''/'') = Disabled \<and>
   is_site_root (pathname (blocked_page ''/'')) \<and>
   init (blocked_page ''/'') = Inl (SecurityError, blocked_page ''/'') \<and>
   localStorage (blocked_page ''/projects/detail.html'') = Disabled \<and>
   \<not> (getCurrentLang (pathname (blocked_page ''/projects/detail.html'')) \<noteq> None \<or>
      is_site_root (pathname (blocked_page ''/projects/detail.html''))) \<and>
   init (blocked_page ''/projects/detail.html'')
     = Inr (bindEvents (blocked_page ''/projects/detail.html'')) \<and>
   localStorage (full_page ''/ar/'') = ReadOnly Map.empty \<and>
   getCurrentLang (pathname (full_page ''/ar/'')) \<noteq> None \<and>
   init (full_page ''/ar/'') = Inl (QuotaExceededError, full_page ''/ar/'') \<and>
   localStorage (full_page ''/'') = ReadOnly Map.empty \<and>
   \<not> getCurrentLang (pathname (full_page ''/'')) \<noteq> None \<and>
   is_site_root (pathname (full_page ''/'')) \<and>
   detectAndRedirect (full_page ''/'') = Inr ((full_page ''/'')\<lparr>navigations := [''./en/'']\<rparr>)"
proof -
  have a: "localStorage (web_page ''/'') = Enabled Map.empty" by (simp add: web_page_def)
  have b: "localStorage (blocked_page p) = Disabled" "pathname (blocked_page p) = p" for p
    by (simp_all add: blocked_page_def web_page_def)
  have f: "localStorage (full_page p) = ReadOnly Map.empty" "pathname (full_page p) = p"
    "language (full_page p) = ''en-US''" "navigations (full_page p) = []" for p
    by (simp_all add: full_page_def web_page_def)
  have g: "getCurrentLang ''/projects/detail.html'' = None" "getCurrentLang ''/'' = None"
    "getCurrentLang ''/ar/'' = Some ''ar''" by code_simp+
  have p: "preferredLocale None ''en-US'' = ''en''" by code_simp
  have r: "is_site_root ''/''" "\<not> is_site_root ''/projects/detail.html''"
    by (simp_all add: is_site_root_def)
  show ?thesis
    using storage_failure_propagates [of "web_page ''/''"]
      storage_failure_propagates [of "blocked_page ''/''"]
      storage_failure_propagates [of "blocked_page ''/projects/detail.html''"]
      storage_failure_propagates [of "full_page ''/ar/''"]
      storage_failure_propagates [of "full_page ''/''"]
    by (simp add: a b f g p r)
qed

end
